theory Spec2Isabelle
  imports Complex_Main "HOL-Library.Word"
    "HOL-Library.Char_ord" "HOL-Library.List_Lexorder"
begin

section \<open>Values, errors and contexts of the Go code\<close>

text \<open>
  A Go \<open>interface{}\<close> value that travels as a command argument or a reply. The Go
  \<open>nil\<close> interface is \<open>None\<close> of \<open>val option\<close>.
\<close>

datatype val = VStr string | VInt int | VArr "val list"

text \<open>
  Go \<open>error\<close> values, by the features the code inspects: identity with the two
  context errors, the dynamic type \<open>proto.RedisError\<close> (the only type with a
  \<open>RedisError()\<close> method, so the only one that passes the type assertion
  \<open>err.(goredis.Error)\<close>), the message, and wrapping (\<open>fmt.Errorf("...%w", e)\<close>).
  A nil error is \<open>None\<close> of \<open>error option\<close>.
\<close>

datatype error =
    ContextCanceled
  | ContextDeadlineExceeded
  | RedisError string
  | ErrorString string
  | Wrapped string error

text \<open>\<open>goredis.Nil\<close> is the constant \<open>proto.RedisError("redis: nil")\<close>.\<close>

definition goredis_Nil :: error where
  "goredis_Nil = RedisError ''redis: nil''"

fun Error :: "error \<Rightarrow> string" where
  "Error ContextCanceled = ''context canceled''"
| "Error ContextDeadlineExceeded = ''context deadline exceeded''"
| "Error (RedisError s) = s"
| "Error (ErrorString s) = s"
| "Error (Wrapped s e) = s"

fun errors_Is :: "error \<Rightarrow> error \<Rightarrow> bool" where
  "errors_Is (Wrapped s e) target = (Wrapped s e = target \<or> errors_Is e target)"
| "errors_Is e target = (e = target)"

fun is_goredis_Error :: "error \<Rightarrow> bool" where
  "is_goredis_Error (RedisError s) = True"
| "is_goredis_Error e = False"

text \<open>\<open>strings.HasPrefix(s, p)\<close>.\<close>

definition HasPrefix :: "string \<Rightarrow> string \<Rightarrow> bool" where
  "HasPrefix s p = (take (length p) s = p)"

text \<open>
  The state in which the lower layer finds a \<open>context.Context\<close> while it works on
  an attempt: still live, cancelled, or past its deadline.
\<close>

datatype ctx = CtxBackground | CtxCanceled | CtxDeadlineExceeded

fun ctx_Err :: "ctx \<Rightarrow> error option" where
  "ctx_Err CtxBackground = None"
| "ctx_Err CtxCanceled = Some ContextCanceled"
| "ctx_Err CtxDeadlineExceeded = Some ContextDeadlineExceeded"

definition redisEval :: string where "redisEval = ''EVAL''"
definition redisEvalSha :: string where "redisEvalSha = ''EVALSHA''"
definition redisErrNoScript :: string where "redisErrNoScript = ''NOSCRIPT ''"
definition defaultHostAndPort :: string where "defaultHostAndPort = ''localhost:6379''"

section \<open>Script objects (package redisapi)\<close>

record Script =
  keyCount :: int
  src :: string
  hash :: string

definition script_args :: "Script \<Rightarrow> string \<Rightarrow> val list \<Rightarrow> val list" where
  "script_args s spec keysAndArgs =
     (if keyCount s < 0 then VStr spec # keysAndArgs
      else VStr spec # VInt (keyCount s) # keysAndArgs)"

definition GetHashAndArgs :: "Script \<Rightarrow> val list \<Rightarrow> val list" where
  "GetHashAndArgs s keysAndArgs = script_args s (hash s) keysAndArgs"

definition GetScriptAndArgs :: "Script \<Rightarrow> val list \<Rightarrow> val list" where
  "GetScriptAndArgs s keysAndArgs = script_args s (src s) keysAndArgs"

section \<open>Commands of the lower layer and their results\<close>

text \<open>
  A \<open>goredis.Cmd\<close>: the arguments it was made from and the value and error that the
  lower layer stores into it when it executes the command.
\<close>

record Cmd =
  cmd_args :: "val list"
  cmd_val :: "val option"
  cmd_err :: "error option"

definition NewCmd :: "val list \<Rightarrow> Cmd" where
  "NewCmd args = \<lparr>cmd_args = args, cmd_val = None, cmd_err = None\<rparr>"

definition Cmd_Result :: "Cmd \<Rightarrow> val option \<times> error option" where
  "Cmd_Result cmd = (cmd_val cmd, cmd_err cmd)"

record ReplyPair =
  Value :: "val option"
  Err :: "error option"

definition getResultFromCommand :: "Cmd \<Rightarrow> val option \<times> error option" where
  "getResultFromCommand cmd =
     (let (reply, err) = Cmd_Result cmd;
          err = (if err = Some goredis_Nil then None else err)
      in (reply, err))"

text \<open>
  The loop of \<open>getResultFromCommands\<close>; the second argument is the local \<open>err\<close>,
  nil when the loop starts.
\<close>

fun getResultFromCommands_loop ::
  "Cmd list \<Rightarrow> error option \<Rightarrow> ReplyPair list \<times> error option" where
  "getResultFromCommands_loop [] err = ([], err)"
| "getResultFromCommands_loop (cmd # cmds) err =
     (let (v, e) = getResultFromCommand cmd;
          err = (if err = None \<and> e \<noteq> None then e else err);
          (results, final) = getResultFromCommands_loop cmds err
      in (\<lparr>Value = v, Err = e\<rparr> # results, final))"

definition getResultFromCommands :: "Cmd list \<Rightarrow> ReplyPair list \<times> error option" where
  "getResultFromCommands cmds = getResultFromCommands_loop cmds None"

section \<open>The command catalog (clientImpl.cmdCache)\<close>

record CommandInfo =
  Name :: string
  ReadOnly :: bool

text \<open>
  The Go map \<open>map[string]*goredis.CommandInfo\<close> as an association list with distinct
  keys; a value is a pointer, which may be nil (\<open>None\<close>). The nil map and the empty
  map are both \<open>[]\<close>, and \<open>len(m) == 0\<close> is \<open>m = []\<close>. Indexing a missing key
  gives the nil pointer.
\<close>

type_synonym cmdCache = "(string \<times> CommandInfo option) list"

definition cache_index :: "cmdCache \<Rightarrow> string \<Rightarrow> CommandInfo option" where
  "cache_index m name = (case map_of m name of None \<Rightarrow> None | Some p \<Rightarrow> p)"

definition ifCommandReadonly :: "cmdCache \<Rightarrow> string \<Rightarrow> bool \<times> error option" where
  "ifCommandReadonly cache name =
     (if length cache = 0 \<or> cache_index cache name = None
      then (False, Some (ErrorString ''no command cache''))
      else (ReadOnly (the (cache_index cache name)), None))"

section \<open>The circuit breaker's error classification\<close>

text \<open>
  \<open>shouldCountAsCBError\<close>. The predicate \<open>goredis.IsReadOnlyError\<close> belongs to the
  lower-layer library and is a parameter here.
\<close>

definition shouldCountAsCBError :: "(error \<Rightarrow> bool) \<Rightarrow> error option \<Rightarrow> bool" where
  "shouldCountAsCBError IsReadOnlyError err =
     (case err of
        None \<Rightarrow> False
      | Some e \<Rightarrow>
          if errors_Is e ContextCanceled then False
          else if IsReadOnlyError e then True
          else if is_goredis_Error e then False
          else True)"

type_synonym IsNonThreatErr = "error option \<Rightarrow> bool \<times> error option"

record cbOption =
  userErrHandler :: "IsNonThreatErr option"

definition newCBOption :: cbOption where
  "newCBOption = \<lparr>userErrHandler = None\<rparr>"

definition WithUserErrorHandler :: "IsNonThreatErr \<Rightarrow> cbOption \<Rightarrow> cbOption" where
  "WithUserErrorHandler handler opt =
     opt\<lparr>userErrHandler :=
       Some (\<lambda>err. if err = None then (False, None) else handler err)\<rparr>"

definition getDefaultUserErrorHandler :: IsNonThreatErr where
  "getDefaultUserErrorHandler = (\<lambda>err. (False, err))"

definition makeOption :: "(cbOption \<Rightarrow> cbOption) list \<Rightarrow> cbOption" where
  "makeOption opts =
     (let options = fold (\<lambda>opt acc. opt acc) opts newCBOption
      in if userErrHandler options = None
         then options\<lparr>userErrHandler := Some getDefaultUserErrorHandler\<rparr>
         else options)"

definition getDefaultCBOptions :: "(error \<Rightarrow> bool) \<Rightarrow> (cbOption \<Rightarrow> cbOption) list" where
  "getDefaultCBOptions IsReadOnlyError =
     [WithUserErrorHandler (\<lambda>err. (\<not> shouldCountAsCBError IsReadOnlyError err, err))]"

text \<open>
  \<open>handleError\<close> inside \<open>circuitbreaker.Go\<close>: what the protected routine hands back to
  the breaker (first component; the breaker tracks an error exactly when this is not
  nil) and what is sent on the soft-error channel (second component, \<open>None\<close> when
  nothing is sent).
\<close>

definition handleError ::
  "cbOption \<Rightarrow> error option \<Rightarrow> error option \<times> error option option" where
  "handleError option routineError =
     (if routineError \<noteq> None \<and> \<not> fst (the (userErrHandler option) routineError)
      then (snd (the (userErrHandler option) routineError), None)
      else (None, Some routineError))"

definition tracked_by_breaker :: "(cbOption \<Rightarrow> cbOption) list \<Rightarrow> error option \<Rightarrow> bool" where
  "tracked_by_breaker opts routineError =
     (fst (handleError (makeOption opts) routineError) \<noteq> None)"

text \<open>The tracked-error count after a sequence of observed errors.\<close>

definition tracked_count :: "(cbOption \<Rightarrow> cbOption) list \<Rightarrow> error option list \<Rightarrow> nat" where
  "tracked_count opts errs = length (filter (tracked_by_breaker opts) errs)"

section \<open>Configuration records\<close>

type_synonym ClientMode = string
type_synonym ReadMode = string

definition ModeCluster :: ClientMode where "ModeCluster = ''cluster''"
definition ModeMasterSlaveGroup :: ClientMode where "ModeMasterSlaveGroup = ''masterSlaveGroup''"
definition ModeSingleHost :: ClientMode where "ModeSingleHost = ''singleHost''"

definition ModeReadFromMaster :: ReadMode where "ModeReadFromMaster = ''readFromMaster''"
definition ModeReadFromSlaves :: ReadMode where "ModeReadFromSlaves = ''readFromSlaves''"
definition ModeReadRandomly :: ReadMode where "ModeReadRandomly = ''readRandomly''"
definition ModeReadByLatency :: ReadMode where "ModeReadByLatency = ''readByLatency''"

definition ClientMode_IsValid :: "ClientMode \<Rightarrow> bool" where
  "ClientMode_IsValid m = (m \<in> set [ModeCluster, ModeMasterSlaveGroup, ModeSingleHost])"

definition ReadMode_IsValid :: "ReadMode \<Rightarrow> bool" where
  "ReadMode_IsValid m =
     (m \<in> set [ModeReadFromMaster, ModeReadFromSlaves, ModeReadRandomly, ModeReadByLatency])"

record Hystrix =
  TimeoutInMs :: int
  MaxConcurrentRequests :: int
  RequestVolumeThreshold :: int
  ErrorPercentThreshold :: int
  SleepWindowInMs :: int
  QueueSizeRejectionThreshold :: int

definition Hystrix_Equals :: "Hystrix \<Rightarrow> Hystrix \<Rightarrow> bool" where
  "Hystrix_Equals h hystrix =
     (TimeoutInMs h = TimeoutInMs hystrix \<and>
      MaxConcurrentRequests h = MaxConcurrentRequests hystrix \<and>
      RequestVolumeThreshold h = RequestVolumeThreshold hystrix \<and>
      ErrorPercentThreshold h = ErrorPercentThreshold hystrix \<and>
      SleepWindowInMs h = SleepWindowInMs hystrix \<and>
      QueueSizeRejectionThreshold h = QueueSizeRejectionThreshold hystrix)"

record ClientConfig =
  ClientMode :: ClientMode
  Addrs :: "string list"
  Username :: string
  Password :: string
  DB :: int
  MaxRetries :: int
  MinRetryBackoffInMs :: int
  MaxRetryBackoffInMs :: int
  DialTimeoutInMs :: int
  ReadTimeoutInMs :: int
  WriteTimeoutInMs :: int
  PoolSize :: int
  MinIdleConns :: int
  MaxIdleConns :: int
  MaxConnAgeInMs :: int
  PoolTimeoutInMs :: int
  IdleTimeoutInMs :: int
  IdleCheckFrequencyInMs :: int
  TLSEnabled :: bool
  HystrixEnabled :: bool
  Hystrix :: Hystrix
  MaxRedirects :: int
  ReadMode :: ReadMode
  IgnoreReadOnly :: bool

record ConnectorConfig =
  Main :: ClientConfig
  LoadTests :: "ClientConfig list"
  HotReload :: bool
  ProcessAllLoadTestPackets :: bool
  SchedulerWorkerNumber :: int
  SchedulerChannelSize :: int
  SchedulerWorkerIdleTimeoutInMs :: int

text \<open>
  \<open>time.Duration\<close> is a 64-bit integer of nanoseconds; the product with
  \<open>time.Millisecond\<close> wraps.
\<close>

type_synonym Duration = "64 word"

definition parseDurationInMs :: "int \<Rightarrow> Duration" where
  "parseDurationInMs durationInMs = word_of_int durationInMs * 1000000"

text \<open>\<open>strings.Join(xs, ",")\<close>.\<close>

fun Join :: "string list \<Rightarrow> string" where
  "Join [] = []"
| "Join [x] = x"
| "Join (x # y # ys) = x @ '','' @ Join (y # ys)"

text \<open>
  \<open>ClientConfig.name\<close>. \<open>sort.Strings\<close> sorts the slice in place, so the function
  also returns the configuration with its address list as the call leaves it.
\<close>

definition name :: "ClientConfig \<Rightarrow> string \<times> ClientConfig" where
  "name c =
     (if length (Addrs c) = 0 then (defaultHostAndPort, c)
      else if ClientMode c = ModeSingleHost then (hd (Addrs c), c)
      else (Join (sort (Addrs c)), c\<lparr>Addrs := sort (Addrs c)\<rparr>))"

definition validate :: "ClientConfig \<Rightarrow> error option" where
  "validate c =
     (if length (Addrs c) = 0 then Some (ErrorString ''no addrs found in config'')
      else if \<not> ClientMode_IsValid (ClientMode c)
        then Some (ErrorString (''client mode '' @ ClientMode c @ '' is not valid''))
      else if \<not> ReadMode_IsValid (ReadMode c)
        then Some (ErrorString (''read mode '' @ ClientMode c @ '' is not valid''))
      else None)"

text \<open>
  \<open>isAddrsEquals\<close>: both slices are sorted in place once their lengths agree, so the
  function returns them as well. The loop compares the sorted slices position by
  position.
\<close>

fun addrs_loop :: "string list \<Rightarrow> string list \<Rightarrow> bool" where
  "addrs_loop (x # xs) (y # ys) = (if x \<noteq> y then False else addrs_loop xs ys)"
| "addrs_loop xs ys = True"

definition isAddrsEquals :: "string list \<Rightarrow> string list \<Rightarrow> bool \<times> string list \<times> string list" where
  "isAddrsEquals addrs1 addrs2 =
     (if length addrs1 \<noteq> length addrs2 then (False, addrs1, addrs2)
      else (addrs_loop (sort addrs1) (sort addrs2), sort addrs1, sort addrs2))"

text \<open>
  \<open>c.validateReload(config)\<close>: the error, and the receiver \<open>c\<close> as the call leaves it
  (its address list may have been sorted).
\<close>

definition validateReload :: "ClientConfig \<Rightarrow> ClientConfig \<Rightarrow> error option \<times> ClientConfig" where
  "validateReload c config =
     (case validate config of
        Some err \<Rightarrow> (Some err, c)
      | None \<Rightarrow>
          if ClientMode c \<noteq> ClientMode config
            then (Some (ErrorString ''client mode change is not allowed in reloading''), c)
          else if DB c \<noteq> DB config
            then (Some (ErrorString ''DB change is not allowed in reloading''), c)
          else (case isAddrsEquals (Addrs c) (Addrs config) of
                  (eq, a1, a2) \<Rightarrow>
                    if \<not> eq
                    then (Some (ErrorString ''addrs change is not allowed in reloading''),
                          c\<lparr>Addrs := a1\<rparr>)
                    else (None, c\<lparr>Addrs := a1\<rparr>)))"

definition ucmEmptyString :: string where "ucmEmptyString = ''<nil>''"

definition ClientConfig_init :: "ClientConfig \<Rightarrow> ClientConfig" where
  "ClientConfig_init c =
     (let c = (if length (Addrs c) = 0 then c\<lparr>Addrs := [defaultHostAndPort]\<rparr> else c);
          c = (if ReadMode c = [] \<or> ReadMode c = ucmEmptyString
               then c\<lparr>ReadMode := ModeReadFromSlaves\<rparr> else c);
          c = (if Username c = ucmEmptyString then c\<lparr>Username := []\<rparr> else c);
          c = (if Password c = ucmEmptyString then c\<lparr>Password := []\<rparr> else c);
          c = (if DialTimeoutInMs c = 0 then c\<lparr>DialTimeoutInMs := 5000\<rparr> else c);
          c = (if TimeoutInMs (Hystrix c) = 0
               then c\<lparr>Hystrix := (Hystrix c)\<lparr>TimeoutInMs := 31000\<rparr>\<rparr> else c);
          c = (if MaxConcurrentRequests (Hystrix c) = 0
               then c\<lparr>Hystrix := (Hystrix c)\<lparr>MaxConcurrentRequests := 5000\<rparr>\<rparr> else c);
          c = (if ErrorPercentThreshold (Hystrix c) = 0
               then c\<lparr>Hystrix := (Hystrix c)\<lparr>ErrorPercentThreshold := 50\<rparr>\<rparr> else c)
      in c)"

text \<open>
  The field updates of \<open>clientWrapperImpl.reload\<close> (single host) once validation has
  passed. Every \<open>if c.config.X != config.X { c.config.X = config.X; c.SetX(...) }\<close>
  leaves \<open>c.config.X\<close> equal to \<open>config.X\<close>; the setters act on the pool of the lower
  layer, whose parameters the configuration mirrors.
\<close>

definition reload_common :: "ClientConfig \<Rightarrow> ClientConfig \<Rightarrow> ClientConfig" where
  "reload_common c config =
     (let c = c\<lparr>Username := Username config, Password := Password config,
                MaxRetries := MaxRetries config,
                MinRetryBackoffInMs := MinRetryBackoffInMs config,
                MaxRetryBackoffInMs := MaxRetryBackoffInMs config,
                DialTimeoutInMs := DialTimeoutInMs config,
                ReadTimeoutInMs := ReadTimeoutInMs config,
                WriteTimeoutInMs := WriteTimeoutInMs config,
                PoolSize := PoolSize config,
                MinIdleConns := MinIdleConns config,
                MaxIdleConns := MaxIdleConns config,
                MaxConnAgeInMs := MaxConnAgeInMs config,
                PoolTimeoutInMs := PoolTimeoutInMs config,
                IdleTimeoutInMs := IdleTimeoutInMs config,
                IdleCheckFrequencyInMs := IdleCheckFrequencyInMs config\<rparr>;
          c = (if HystrixEnabled config \<and>
                  (\<not> Hystrix_Equals (Hystrix c) (Hystrix config) \<or> \<not> HystrixEnabled c)
               then c\<lparr>Hystrix := Hystrix config\<rparr> else c)
      in c\<lparr>HystrixEnabled := HystrixEnabled config\<rparr>)"

definition clientWrapperImpl_reload ::
  "ClientConfig \<Rightarrow> ClientConfig \<Rightarrow> error option \<times> ClientConfig" where
  "clientWrapperImpl_reload c config =
     (let config = ClientConfig_init config
      in case validateReload c config of
           (Some err, c) \<Rightarrow> (Some err, c)
         | (None, c) \<Rightarrow>
             (None, (reload_common c config)\<lparr>IgnoreReadOnly := IgnoreReadOnly config\<rparr>))"

definition clusterWrapperImpl_reload ::
  "ClientConfig \<Rightarrow> ClientConfig \<Rightarrow> error option \<times> ClientConfig" where
  "clusterWrapperImpl_reload c config =
     (let config = ClientConfig_init config
      in case validateReload c config of
           (Some err, c) \<Rightarrow> (Some err, c)
         | (None, c) \<Rightarrow>
             (None, (reload_common c config)\<lparr>MaxRedirects := MaxRedirects config,
                       IgnoreReadOnly := IgnoreReadOnly config,
                       ReadMode := ReadMode config\<rparr>))"

section \<open>The wrapped lower-layer client and clientImpl\<close>

text \<open>
  The interface \<open>clientWrapper\<close> over the lower-layer library, which is not part of
  this repository: each operation is a parameter that takes the context it is called
  with and the state \<open>'s\<close> of the lower layer (pool and server) and returns its
  result and the new state. \<open>wExec\<close> is \<open>Pipeline().Exec\<close> on the queued commands,
  answering them in order.
\<close>

record PubSub =
  ps_messages :: "(string \<times> string) list"

record 's clientWrapper =
  wDo :: "ctx \<Rightarrow> val list \<Rightarrow> 's \<Rightarrow> (val option \<times> error option) \<times> 's"
  wExec :: "ctx \<Rightarrow> val list list \<Rightarrow> 's \<Rightarrow> (val option \<times> error option) list \<times> 's"
  wPublish :: "ctx \<Rightarrow> string \<Rightarrow> val \<Rightarrow> 's \<Rightarrow> (int \<times> error option) \<times> 's"
  wSubscribe :: "ctx \<Rightarrow> string list \<Rightarrow> 's \<Rightarrow> PubSub \<times> 's"
  wCommand :: "ctx \<Rightarrow> 's \<Rightarrow> (cmdCache \<times> error option) \<times> 's"

record 's clientImpl =
  wrappedClient :: "'s clientWrapper"
  wstate :: 's
  config :: ClientConfig
  cmdCache :: cmdCache
  isClosed :: bool

text \<open>
  \<open>Exec\<close> stores each answer into the command object queued at the same position; a
  command without an answer keeps the fields \<open>NewCmd\<close> gave it.
\<close>

fun set_results :: "Cmd list \<Rightarrow> (val option \<times> error option) list \<Rightarrow> Cmd list" where
  "set_results [] rs = []"
| "set_results (c # cs) [] = c # cs"
| "set_results (c # cs) (r # rs) = c\<lparr>cmd_val := fst r, cmd_err := snd r\<rparr> # set_results cs rs"

definition client_do ::
  "'s clientImpl \<Rightarrow> ctx \<Rightarrow> val list \<Rightarrow> (val option \<times> error option) \<times> 's clientImpl" where
  "client_do c ctx args =
     (let (r, st) = wDo (wrappedClient c) ctx args (wstate c);
          cmd = (NewCmd args)\<lparr>cmd_val := fst r, cmd_err := snd r\<rparr>
      in (getResultFromCommand cmd, c\<lparr>wstate := st\<rparr>))"

definition client_Do ::
  "'s clientImpl \<Rightarrow> ctx \<Rightarrow> string \<Rightarrow> val list \<Rightarrow> (val option \<times> error option) \<times> 's clientImpl" where
  "client_Do c ctx cmdName args = client_do c ctx (VStr cmdName # args)"

definition client_Pipeline ::
  "'s clientImpl \<Rightarrow> ctx \<Rightarrow> val list list \<Rightarrow> (ReplyPair list \<times> error option) \<times> 's clientImpl" where
  "client_Pipeline c ctx argsList =
     (let ctx = CtxBackground;
          cmds = map NewCmd argsList;
          (rs, st) = wExec (wrappedClient c) ctx (map cmd_args cmds) (wstate c);
          cmds = set_results cmds rs
      in (getResultFromCommands cmds, c\<lparr>wstate := st\<rparr>))"

definition client_Run ::
  "'s clientImpl \<Rightarrow> ctx \<Rightarrow> Script \<Rightarrow> val list \<Rightarrow> (val option \<times> error option) \<times> 's clientImpl" where
  "client_Run c ctx script keysAndArgs =
     (let args = GetHashAndArgs script keysAndArgs;
          allArgs = VStr redisEvalSha # args;
          ((reply, err), c1) = client_do c ctx allArgs
      in if err \<noteq> None \<and> HasPrefix (Error (the err)) redisErrNoScript
         then (let args = GetScriptAndArgs script keysAndArgs;
                   allArgs = VStr redisEval # args
               in client_do c1 ctx allArgs)
         else ((reply, err), c1))"

definition client_Publish ::
  "'s clientImpl \<Rightarrow> ctx \<Rightarrow> string \<Rightarrow> val \<Rightarrow> (val option \<times> error option) \<times> 's clientImpl" where
  "client_Publish c ctx channelName v =
     (let (r, st) = wPublish (wrappedClient c) CtxBackground channelName v (wstate c)
      in ((Some (VInt (fst r)), snd r), c\<lparr>wstate := st\<rparr>))"

record SubscribeMessage =
  Channel :: string
  Data :: string

text \<open>
  \<open>ResultChan\<close> is given by the messages the forwarding goroutine sends on it before
  it closes the channel. The unsubscribe closure is left out.
\<close>

record SubscribeResponse =
  ResultChan :: "SubscribeMessage list"

definition client_Subscribe ::
  "'s clientImpl \<Rightarrow> ctx \<Rightarrow> int \<Rightarrow> string list \<Rightarrow>
     (SubscribeResponse option \<times> error option) \<times> 's clientImpl" where
  "client_Subscribe c ctx chanBufferSize channels =
     (let (sub, st) = wSubscribe (wrappedClient c) CtxBackground channels (wstate c);
          resultChan = map (\<lambda>msg. \<lparr>Channel = fst msg, Data = snd msg\<rparr>) (ps_messages sub)
      in ((Some \<lparr>ResultChan = resultChan\<rparr>, None), c\<lparr>wstate := st\<rparr>))"

definition client_ShutDown :: "'s clientImpl \<Rightarrow> 's clientImpl" where
  "client_ShutDown c = c\<lparr>isClosed := True\<rparr>"

text \<open>
  \<open>newClient\<close>. \<open>dial\<close> stands for the constructors of the lower layer
  (\<open>goredis.NewDynamicClient\<close>, \<open>goredis.NewDynamicClusterClient\<close>) that
  \<open>createClient\<close> calls.
\<close>

definition newClient ::
  "(ClientConfig \<Rightarrow> 's clientWrapper \<times> 's) \<Rightarrow> ctx \<Rightarrow> ClientConfig \<Rightarrow> error + 's clientImpl" where
  "newClient dial ctx cfg =
     (if ClientMode cfg \<noteq> ModeCluster \<and> ClientMode cfg \<noteq> ModeMasterSlaveGroup \<and>
         ClientMode cfg \<noteq> ModeSingleHost
      then Inl (ErrorString ''invalid client mode to init Redis client'')
      else (let (w, st) = dial cfg;
                (r, st) = wCommand w ctx st
            in if ctx_Err ctx \<noteq> None then Inl (the (ctx_Err ctx))
               else Inr \<lparr>wrappedClient = w, wstate = st, config = cfg,
                         cmdCache = fst r, isClosed = False\<rparr>))"

text \<open>
  \<open>clientImpl.reload\<close> calls \<open>reload\<close> of the wrapper, whose implementation
  \<open>createClient\<close> chose by the client mode.
\<close>

definition clientImpl_reload :: "'s clientImpl \<Rightarrow> ClientConfig \<Rightarrow> error option \<times> 's clientImpl" where
  "clientImpl_reload c cfg =
     (let (err, cfg') =
            (if ClientMode (config c) = ModeSingleHost
             then clientWrapperImpl_reload (config c) cfg
             else clusterWrapperImpl_reload (config c) cfg)
      in (err, c\<lparr>config := cfg'\<rparr>))"

section \<open>Calls that reach the lower layer\<close>

text \<open>
  To speak about what a backend receives, and under which context, a wrapper can be
  made to record every call on it before passing the call on.
\<close>

datatype call =
    CallDo ctx "val list"
  | CallExec ctx "val list list"
  | CallPublish ctx string val
  | CallSubscribe ctx "string list"
  | CallCommand ctx

definition recording :: "'s clientWrapper \<Rightarrow> (call list \<times> 's) clientWrapper" where
  "recording w =
     \<lparr>wDo = (\<lambda>ctx args (log, st).
              (fst (wDo w ctx args st), (log @ [CallDo ctx args], snd (wDo w ctx args st)))),
      wExec = (\<lambda>ctx argss (log, st).
              (fst (wExec w ctx argss st), (log @ [CallExec ctx argss], snd (wExec w ctx argss st)))),
      wPublish = (\<lambda>ctx ch v (log, st).
              (fst (wPublish w ctx ch v st),
               (log @ [CallPublish ctx ch v], snd (wPublish w ctx ch v st)))),
      wSubscribe = (\<lambda>ctx chans (log, st).
              (fst (wSubscribe w ctx chans st),
               (log @ [CallSubscribe ctx chans], snd (wSubscribe w ctx chans st)))),
      wCommand = (\<lambda>ctx (log, st).
              (fst (wCommand w ctx st), (log @ [CallCommand ctx], snd (wCommand w ctx st))))\<rparr>"

definition calls :: "(call list \<times> 's) clientImpl \<Rightarrow> call list" where
  "calls c = fst (wstate c)"

text \<open>
  A lower layer honours contexts when it answers every single command issued under a
  finished context with that context's error.
\<close>

definition honours_ctx :: "'s clientWrapper \<Rightarrow> bool" where
  "honours_ctx w =
     (\<forall>ctx args st. ctx_Err ctx \<noteq> None \<longrightarrow> snd (fst (wDo w ctx args st)) = ctx_Err ctx)"

text \<open>
  A small concrete lower layer for evaluating the model: it has no state, honours
  contexts, knows no script by its hash, and reports a missing key for \<open>GET\<close>.
\<close>

definition stub_reply :: "val list \<Rightarrow> val option \<times> error option" where
  "stub_reply args =
     (if args = [] then (None, Some (RedisError ''ERR empty command''))
      else if hd args = VStr ''PING'' then (Some (VStr ''PONG''), None)
      else if hd args = VStr ''GET'' then (None, Some goredis_Nil)
      else if hd args = VStr ''EVALSHA''
        then (None, Some (RedisError ''NOSCRIPT No matching script. Please use EVAL.''))
      else if hd args = VStr ''EVAL'' then (Some (VStr ''ok''), None)
      else (None, Some (RedisError ''ERR unknown command'')))"

definition stub_answer :: "ctx \<Rightarrow> val list \<Rightarrow> val option \<times> error option" where
  "stub_answer ctx args = (if ctx_Err ctx \<noteq> None then (None, ctx_Err ctx) else stub_reply args)"

definition stub_wrapper :: "unit clientWrapper" where
  "stub_wrapper =
     \<lparr>wDo = (\<lambda>ctx args st. (stub_answer ctx args, st)),
      wExec = (\<lambda>ctx argss st. (map (stub_answer ctx) argss, st)),
      wPublish = (\<lambda>ctx ch v st. (if ctx_Err ctx \<noteq> None then (0, ctx_Err ctx) else (1, None), st)),
      wSubscribe = (\<lambda>ctx chans st. (\<lparr>ps_messages = []\<rparr>, st)),
      wCommand = (\<lambda>ctx st.
         (([(''get'', Some \<lparr>Name = ''get'', ReadOnly = True\<rparr>),
            (''set'', Some \<lparr>Name = ''set'', ReadOnly = False\<rparr>)], None), st))\<rparr>"

definition stub_config :: "string list \<Rightarrow> ClientConfig" where
  "stub_config addrs =
     \<lparr>ClientMode = ModeSingleHost, Addrs = addrs, Username = [], Password = [], DB = 0,
      MaxRetries = 0, MinRetryBackoffInMs = 0, MaxRetryBackoffInMs = 0,
      DialTimeoutInMs = 5000, ReadTimeoutInMs = 0, WriteTimeoutInMs = 0, PoolSize = 10,
      MinIdleConns = 0, MaxIdleConns = 0, MaxConnAgeInMs = 0, PoolTimeoutInMs = 0,
      IdleTimeoutInMs = 0, IdleCheckFrequencyInMs = 0, TLSEnabled = False,
      HystrixEnabled = False,
      Hystrix = \<lparr>TimeoutInMs = 31000, MaxConcurrentRequests = 5000,
                 RequestVolumeThreshold = 0, ErrorPercentThreshold = 50,
                 SleepWindowInMs = 0, QueueSizeRejectionThreshold = 0\<rparr>,
      MaxRedirects = 0, ReadMode = ModeReadFromSlaves, IgnoreReadOnly = False\<rparr>"

definition stub_dial :: "ClientConfig \<Rightarrow> (call list \<times> unit) clientWrapper \<times> (call list \<times> unit)" where
  "stub_dial cfg = (recording stub_wrapper, ([], ()))"

definition stub_client :: "string list \<Rightarrow> (call list \<times> unit) clientImpl" where
  "stub_client addrs =
     \<lparr>wrappedClient = recording stub_wrapper, wstate = ([], ()), config = stub_config addrs,
      cmdCache = [], isClosed = False\<rparr>"

section \<open>The load-test scheduler\<close>

text \<open>
  The latency ring. Samples are 64-bit nanosecond counts; the two counters grow by one
  for each executed task and are taken without wrap-around.
\<close>

record latencies =
  l_values :: "int list"
  l_index :: int
  l_added :: int

definition newLatencies :: "nat \<Rightarrow> latencies" where
  "newLatencies l = \<lparr>l_values = replicate l 0, l_index = - 1, l_added = 0\<rparr>"

definition latencies_Add :: "latencies \<Rightarrow> int \<Rightarrow> latencies" where
  "latencies_Add l v =
     (let index = l_index l + 1;
          l = l\<lparr>l_index := index\<rparr>;
          index = index mod int (length (l_values l))
      in l\<lparr>l_values := (l_values l)[nat index := v], l_added := l_added l + 1\<rparr>)"

text \<open>
  \<open>Average\<close>. The sum is accumulated in an \<open>int64\<close> and wraps. The result is a
  \<open>float64\<close> in the source; here the quotient is the exact rational number.
\<close>

definition latencies_Average :: "latencies \<Rightarrow> rat" where
  "latencies_Average l =
     (let added = l_added l;
          len = (if added < int (length (l_values l)) then added
                 else int (length (l_values l)))
      in if len \<le> 0 then 0
         else (let total = sint (word_of_int (sum_list (take (nat len) (l_values l))) :: 64 word)
               in of_int total / of_int len))"

text \<open>
  A queued closure \<open>func(ctx)\<close>: the operation that \<open>queueLoadTest\<close> was called with
  and the load-test client (a pointer into the store) it captured.
\<close>

datatype loadTestFn =
    FnDo string "val list"
  | FnPipeline "val list list"
  | FnRun Script "val list"
  | FnPublish string val
  | FnSubscribe int "string list"

type_synonym task = "loadTestFn \<times> nat"

text \<open>
  The scheduler. \<open>numWorker\<close> is the atomic counter; \<open>spawned\<close> counts the goroutines
  that \<open>go s.spawnWorker(ctx)\<close> has created and that have not yet executed their first
  statement \<open>s.numWorker.Inc()\<close>.
\<close>

record scheduler =
  fnChan :: "task list"
  chanCap :: nat
  maxWorker :: int
  numWorker :: int
  spawned :: nat
  sched_latencies :: latencies

text \<open>\<open>k\<close> of the created goroutines (at most all of them) begin to run.\<close>

definition goroutines_start :: "nat \<Rightarrow> scheduler \<Rightarrow> scheduler" where
  "goroutines_start k s =
     (let j = min k (spawned s)
      in s\<lparr>numWorker := numWorker s + int j, spawned := spawned s - j\<rparr>)"

definition tick_need :: "nat \<Rightarrow> rat \<Rightarrow> int" where
  "tick_need backlog avgLatency =
     (if avgLatency > 0 then \<lceil>of_nat backlog * (avgLatency / 1000000000)\<rceil> else 1)"

text \<open>
  The spawning loop of the monitor,
  \<open>for i := 0; i < need && s.numWorker.Load() < maxWorker; i++ { go s.spawnWorker(ctx) }\<close>.
  The list \<open>starts\<close> is the interleaving: its head tells how many of the goroutines
  created so far begin to run before the loop condition is next evaluated.
\<close>

function spawn_loop :: "int \<Rightarrow> int \<Rightarrow> nat list \<Rightarrow> scheduler \<Rightarrow> scheduler" where
  "spawn_loop need i starts s =
     (if i < need \<and>
         numWorker (goroutines_start (case starts of [] \<Rightarrow> 0 | k # ks \<Rightarrow> k) s)
           < maxWorker s
      then spawn_loop need (i + 1) (tl starts)
             ((goroutines_start (case starts of [] \<Rightarrow> 0 | k # ks \<Rightarrow> k) s)
                \<lparr>spawned :=
                   spawned (goroutines_start (case starts of [] \<Rightarrow> 0 | k # ks \<Rightarrow> k) s) + 1\<rparr>)
      else goroutines_start (case starts of [] \<Rightarrow> 0 | k # ks \<Rightarrow> k) s)"
  by pat_completeness auto
termination
  by (relation "measure (\<lambda>(need, i, starts, s). nat (need - i))") auto

definition monitor_tick :: "nat list \<Rightarrow> scheduler \<Rightarrow> scheduler" where
  "monitor_tick starts s =
     (let backlog = length (fnChan s)
      in if backlog = 0 then s
         else spawn_loop (tick_need backlog (latencies_Average (sched_latencies s))) 0 starts s)"

text \<open>Every goroutine created so far has begun to run.\<close>

definition all_started :: "scheduler \<Rightarrow> scheduler" where
  "all_started s = goroutines_start (spawned s) s"

section \<open>The connector\<close>

record schedulerOptions =
  opt_maxChanSize :: int
  opt_maxWorker :: int
  opt_workerIdleTimeout :: Duration

text \<open>
  \<open>connectorImpl\<close>. Clients are shared by pointer: \<open>store\<close> holds every
  \<open>clientImpl\<close> object that exists, and \<open>client\<close> and \<open>loadTestClients\<close> are
  positions in it.
\<close>

record 's connectorImpl =
  store :: "'s clientImpl list"
  client :: nat
  loadTestClients :: "nat list"
  processAllLoadTestPackets :: bool
  schedulerOptions :: schedulerOptions
  loadTestScheduler :: scheduler

text \<open>
  The dispatcher methods below return the result of the primary client. The calls to
  the logger and to the stats client (\<open>logHystrixError\<close> among them) have no effect
  on any result or state and are left out, as are the \<open>ReadOnly\<close> variants, each of
  which only calls its base method.
\<close>



text \<open>
  \<open>queueLoadTest\<close>. In strict mode the send blocks until the queue has room, so the
  closure is always queued; otherwise it is dropped when the queue is full.
\<close>

fun queue_loop :: "bool \<Rightarrow> loadTestFn \<Rightarrow> nat list \<Rightarrow> scheduler \<Rightarrow> scheduler" where
  "queue_loop strict fn [] s = s"
| "queue_loop strict fn (p # ps) s =
     (if strict then queue_loop strict fn ps (s\<lparr>fnChan := fnChan s @ [(fn, p)]\<rparr>)
      else if length (fnChan s) < chanCap s
        then queue_loop strict fn ps (s\<lparr>fnChan := fnChan s @ [(fn, p)]\<rparr>)
      else queue_loop strict fn ps s)"

definition queueLoadTest :: "'s connectorImpl \<Rightarrow> loadTestFn \<Rightarrow> 's connectorImpl" where
  "queueLoadTest c fn =
     c\<lparr>loadTestScheduler :=
         queue_loop (processAllLoadTestPackets c) fn (loadTestClients c) (loadTestScheduler c)\<rparr>"

definition on_primary ::
  "'s connectorImpl \<Rightarrow> ('s clientImpl \<Rightarrow> 'r \<times> 's clientImpl) \<Rightarrow> 'r \<times> 's connectorImpl" where
  "on_primary c f =
     (let (r, p) = f (store c ! client c)
      in (r, c\<lparr>store := (store c)[client c := p]\<rparr>))"

definition connector_Do ::
  "'s connectorImpl \<Rightarrow> ctx \<Rightarrow> string \<Rightarrow> val list \<Rightarrow> (val option \<times> error option) \<times> 's connectorImpl" where
  "connector_Do c ctx cmdName args =
     (if IgnoreReadOnly (config (store c ! client c)) \<and>
         fst (ifCommandReadonly (cmdCache (store c ! client c)) cmdName)
      then on_primary c (\<lambda>p. client_Do p ctx cmdName args)
      else on_primary (queueLoadTest c (FnDo cmdName args)) (\<lambda>p. client_Do p ctx cmdName args))"

definition connector_Pipeline ::
  "'s connectorImpl \<Rightarrow> ctx \<Rightarrow> val list list \<Rightarrow>
     (ReplyPair list \<times> error option) \<times> 's connectorImpl" where
  "connector_Pipeline c ctx argsList =
     on_primary (queueLoadTest c (FnPipeline argsList)) (\<lambda>p. client_Pipeline p ctx argsList)"

definition connector_Run ::
  "'s connectorImpl \<Rightarrow> ctx \<Rightarrow> Script \<Rightarrow> val list \<Rightarrow>
     (val option \<times> error option) \<times> 's connectorImpl" where
  "connector_Run c ctx script keysAndArgs =
     on_primary (queueLoadTest c (FnRun script keysAndArgs))
       (\<lambda>p. client_Run p ctx script keysAndArgs)"

definition connector_Publish ::
  "'s connectorImpl \<Rightarrow> ctx \<Rightarrow> string \<Rightarrow> val \<Rightarrow> (val option \<times> error option) \<times> 's connectorImpl" where
  "connector_Publish c ctx channelName v =
     on_primary (queueLoadTest c (FnPublish channelName v))
       (\<lambda>p. client_Publish p ctx channelName v)"

definition connector_Subscribe ::
  "'s connectorImpl \<Rightarrow> ctx \<Rightarrow> int \<Rightarrow> string list \<Rightarrow>
     (SubscribeResponse option \<times> error option) \<times> 's connectorImpl" where
  "connector_Subscribe c ctx chanBufferSize channels =
     on_primary (queueLoadTest c (FnSubscribe chanBufferSize channels))
       (\<lambda>p. client_Subscribe p ctx chanBufferSize channels)"


section \<open>Reload\<close>

text \<open>The local \<open>loadTestMap\<close>: canonical name to the clients under that name.\<close>

type_synonym loadTestMap = "(string \<times> nat list) list"

definition map_get :: "loadTestMap \<Rightarrow> string \<Rightarrow> nat list" where
  "map_get m k = (case map_of m k of None \<Rightarrow> [] | Some v \<Rightarrow> v)"

fun map_put :: "loadTestMap \<Rightarrow> string \<Rightarrow> nat list \<Rightarrow> loadTestMap" where
  "map_put [] k v = [(k, v)]"
| "map_put ((k', v') # m) k v = (if k' = k then (k, v) # m else (k', v') # map_put m k v)"

fun build_loadTestMap ::
  "nat list \<Rightarrow> 's clientImpl list \<times> loadTestMap \<Rightarrow> 's clientImpl list \<times> loadTestMap" where
  "build_loadTestMap [] (st, m) = (st, m)"
| "build_loadTestMap (p # ps) (st, m) =
     (let (nm, cfg) = name (config (st ! p));
          st = st[p := (st ! p)\<lparr>config := cfg\<rparr>]
      in build_loadTestMap ps (st, map_put m nm (map_get m nm @ [p])))"

definition shareAddrError :: error where
  "shareAddrError = ErrorString (''can'' @ [CHR 39] @ ''t share the same address with the main client'')"

text \<open>
  The loop over \<open>config.LoadTests\<close>. The state is the store, the map and the slice
  \<open>newLoadTestClients\<close> filled so far; the result also carries the error, if the loop
  returned one.
\<close>

fun reload_loop ::
  "(ClientConfig \<Rightarrow> 's clientWrapper \<times> 's) \<Rightarrow> ctx \<Rightarrow> nat \<Rightarrow> ClientConfig list \<Rightarrow>
   's clientImpl list \<times> loadTestMap \<times> nat list \<Rightarrow>
   error option \<times> 's clientImpl list \<times> loadTestMap \<times> nat list" where
  "reload_loop dial ctx prim [] (st, m, new) = (None, st, m, new)"
| "reload_loop dial ctx prim (cfg0 # rest) (st, m, new) =
     (let (nm, cfg) = name cfg0;
          clients = map_get m nm
      in if length clients > 0
         then (let cl = last clients;
                   m = map_put m nm (butlast clients);
                   (eq, a1, a2) = isAddrsEquals (Addrs (config (st ! prim))) (Addrs cfg);
                   st = st[prim := (st ! prim)\<lparr>config := (config (st ! prim))\<lparr>Addrs := a1\<rparr>\<rparr>];
                   cfg = cfg\<lparr>Addrs := a2\<rparr>
               in if eq then (Some shareAddrError, st, m, new)
                  else (let (err, c') = clientImpl_reload (st ! cl) cfg;
                            st = st[cl := c']
                        in if err \<noteq> None then (err, st, m, new)
                           else reload_loop dial ctx prim rest (st, m, new @ [cl])))
         else (case newClient dial ctx cfg of
                 Inl err \<Rightarrow> (Some err, st, m, new)
               | Inr c \<Rightarrow> reload_loop dial ctx prim rest (st @ [c], m, new @ [length st])))"

definition shutdown_all :: "nat list \<Rightarrow> 's clientImpl list \<Rightarrow> 's clientImpl list" where
  "shutdown_all ps st = fold (\<lambda>p st. st[p := client_ShutDown (st ! p)]) ps st"

definition schedulerParamsError :: error where
  "schedulerParamsError =
     ErrorString ''dual write worker number/channel size change is not allowed in reloading''"

definition connector_reload ::
  "(ClientConfig \<Rightarrow> 's clientWrapper \<times> 's) \<Rightarrow> ctx \<Rightarrow> 's connectorImpl \<Rightarrow> ConnectorConfig \<Rightarrow>
   error option \<times> 's connectorImpl" where
  "connector_reload dial ctx c cfg =
     (if \<not> HotReload cfg then (None, c)
      else (let c = c\<lparr>processAllLoadTestPackets := ProcessAllLoadTestPackets cfg\<rparr>
            in if opt_maxWorker (schedulerOptions c) \<noteq> SchedulerWorkerNumber cfg \<or>
                  opt_maxChanSize (schedulerOptions c) \<noteq> SchedulerChannelSize cfg \<or>
                  opt_workerIdleTimeout (schedulerOptions c)
                    \<noteq> parseDurationInMs (SchedulerWorkerIdleTimeoutInMs cfg)
               then (Some schedulerParamsError, c)
               else (let (err, p) = clientImpl_reload (store c ! client c) (Main cfg);
                         c = c\<lparr>store := (store c)[client c := p]\<rparr>
                     in if err \<noteq> None then (err, c)
                        else (let (st, m) = build_loadTestMap (loadTestClients c) (store c, []);
                                  (err, st, m, new) =
                                     reload_loop dial ctx (client c) (LoadTests cfg) (st, m, [])
                              in if err \<noteq> None then (err, c\<lparr>store := st\<rparr>)
                                 else (None, c\<lparr>store := shutdown_all (concat (map snd m)) st,
                                               loadTestClients := new\<rparr>)))))"

text \<open>
  The slice \<open>cmds\<close> of \<open>Pipeline\<close> after \<open>Exec\<close> has run: one command object for
  each input tuple, holding what the lower layer stored into it.
\<close>

definition pipeline_cmds :: "'s clientImpl \<Rightarrow> val list list \<Rightarrow> Cmd list" where
  "pipeline_cmds c argsList =
     set_results (map NewCmd argsList)
       (fst (wExec (wrappedClient c) CtxBackground argsList (wstate c)))"

section \<open>Notions of the specification\<close>




text \<open>The condition under which \<open>Run\<close> retries: a non-nil error whose message starts with the no-script marker.\<close>

definition isNoScript :: "error option \<Rightarrow> bool" where
  "isNoScript err = (err \<noteq> None \<and> HasPrefix (Error (the err)) redisErrNoScript)"


text \<open>The first non-nil error of a sequence of reply pairs, nil when there is none.\<close>

fun first_err :: "ReplyPair list \<Rightarrow> error option" where
  "first_err [] = None"
| "first_err (p # ps) = (if Err p \<noteq> None then Err p else first_err ps)"

text \<open>
  An instance of the read-only predicate of the lower layer, for evaluating the model:
  the message starts with \<open>READONLY\<close> and a blank.
\<close>

definition readOnlyPrefix :: "error \<Rightarrow> bool" where
  "readOnlyPrefix e = HasPrefix (Error e) ''READONLY ''"

section \<open>A concrete connector for evaluating the model\<close>

definition stub_scheduler :: scheduler where
  "stub_scheduler =
     \<lparr>fnChan = [], chanCap = 10000, maxWorker = 10, numWorker = 0, spawned = 0,
      sched_latencies = \<lparr>l_values = [0, 0, 0, 0], l_index = - 1, l_added = 0\<rparr>\<rparr>"

fun ptrs_from :: "nat \<Rightarrow> 'a list \<Rightarrow> nat list" where
  "ptrs_from n [] = []"
| "ptrs_from n (x # xs) = n # ptrs_from (Suc n) xs"

text \<open>
  A connector whose primary has the addresses \<open>primary\<close> and that has one load-test
  client for each address list in \<open>shadows\<close>, with the default scheduler parameters.
\<close>

definition stub_connector ::
  "string list \<Rightarrow> string list list \<Rightarrow> bool \<Rightarrow> (call list \<times> unit) connectorImpl" where
  "stub_connector primary shadows strict =
     \<lparr>store = stub_client primary # map stub_client shadows,
      client = 0,
      loadTestClients = ptrs_from 1 shadows,
      processAllLoadTestPackets = strict,
      schedulerOptions = \<lparr>opt_maxChanSize = 10000, opt_maxWorker = 10,
                          opt_workerIdleTimeout = parseDurationInMs 1000\<rparr>,
      loadTestScheduler = stub_scheduler\<rparr>"

definition stub_connector_config :: "ClientConfig \<Rightarrow> ClientConfig list \<Rightarrow> bool \<Rightarrow> ConnectorConfig" where
  "stub_connector_config main shadows strict =
     \<lparr>Main = main, LoadTests = shadows, HotReload = True,
      ProcessAllLoadTestPackets = strict, SchedulerWorkerNumber = 10,
      SchedulerChannelSize = 10000, SchedulerWorkerIdleTimeoutInMs = 1000\<rparr>"

definition stub_script :: Script where
  "stub_script = \<lparr>keyCount = 0, src = ''return ARGV[1]'', hash = ''098e0f0d1448c0a81dafe820f66d460eb09263da''\<rparr>"

text \<open>
  A scheduler with three queued closures, one worker allowed and none running, whose
  latency ring holds two samples of one second each.
\<close>

definition backlog_scheduler :: scheduler where
  "backlog_scheduler =
     \<lparr>fnChan = [(FnDo ''SET'' [VStr ''k'', VStr ''v''], 1),
                (FnDo ''SET'' [VStr ''k'', VStr ''v''], 1),
                (FnDo ''SET'' [VStr ''k'', VStr ''v''], 1)],
      chanCap = 10000, maxWorker = 1, numWorker = 0, spawned = 0,
      sched_latencies =
        \<lparr>l_values = [1000000000, 1000000000, 0, 0], l_index = 1, l_added = 2\<rparr>\<rparr>"

section \<open>Properties\<close>

subsection \<open>Helper lemmas\<close>

lemma default_handler_tracks:
  "tracked_by_breaker (getDefaultCBOptions ro) err = shouldCountAsCBError ro err"
  by (cases err)
     (simp_all add: tracked_by_breaker_def handleError_def makeOption_def
        getDefaultCBOptions_def WithUserErrorHandler_def newCBOption_def
        shouldCountAsCBError_def)

lemma loop_fst:
  "fst (getResultFromCommands_loop cmds err) =
     map (\<lambda>c. \<lparr>Value = fst (getResultFromCommand c), Err = snd (getResultFromCommand c)\<rparr>) cmds"
  by (induction cmds arbitrary: err) (simp_all add: Let_def case_prod_beta)

lemma loop_snd:
  "snd (getResultFromCommands_loop cmds err) =
     (if err \<noteq> None then err else first_err (fst (getResultFromCommands_loop cmds err)))"
  by (induction cmds arbitrary: err) (simp_all add: Let_def case_prod_beta)

lemma set_results_length: "length (set_results cs rs) = length cs"
  by (induction cs rs rule: set_results.induct) simp_all

lemma set_results_nth:
  "i < length cs \<Longrightarrow> i < length rs \<Longrightarrow>
   set_results cs rs ! i = (cs ! i)\<lparr>cmd_val := fst (rs ! i), cmd_err := snd (rs ! i)\<rparr>"
  by (induction cs rs arbitrary: i rule: set_results.induct) (auto simp: nth_Cons')

lemma set_results_args: "map cmd_args (set_results cs rs) = map cmd_args cs"
  by (induction cs rs rule: set_results.induct) simp_all

lemma map_args_NewCmd: "map (cmd_args \<circ> NewCmd) al = al"
  by (induction al) (simp_all add: NewCmd_def)

lemma client_Pipeline_results:
  "fst (client_Pipeline c ctx argsList) = getResultFromCommands (pipeline_cmds c argsList)"
  by (simp add: client_Pipeline_def pipeline_cmds_def Let_def case_prod_beta map_args_NewCmd)

lemma pipeline_cmds_length: "length (pipeline_cmds c argsList) = length argsList"
  by (simp add: pipeline_cmds_def set_results_length)

lemma client_Pipeline_pairs:
  "fst (fst (client_Pipeline c ctx argsList)) =
      map (\<lambda>c. \<lparr>Value = fst (getResultFromCommand c), Err = snd (getResultFromCommand c)\<rparr>)
        (pipeline_cmds c argsList)"
  by (simp add: client_Pipeline_results getResultFromCommands_def loop_fst)

lemma gr_nil: "cmd_err cmd = Some goredis_Nil \<Longrightarrow> getResultFromCommand cmd = (cmd_val cmd, None)"
  by (simp add: getResultFromCommand_def Cmd_Result_def)

lemma gr_other: "cmd_err cmd \<noteq> Some goredis_Nil \<Longrightarrow> getResultFromCommand cmd = (cmd_val cmd, cmd_err cmd)"
  by (simp add: getResultFromCommand_def Cmd_Result_def)

lemma client_Do_result:
  "fst (client_Do c ctx cmdName args) =
     getResultFromCommand ((NewCmd (VStr cmdName # args))
       \<lparr>cmd_val := fst (fst (wDo (wrappedClient c) ctx (VStr cmdName # args) (wstate c))),
        cmd_err := snd (fst (wDo (wrappedClient c) ctx (VStr cmdName # args) (wstate c)))\<rparr>)"
  by (simp add: client_Do_def client_do_def Let_def case_prod_beta)

lemma pipeline_slot:
  assumes "i < length argsList"
    and "i < length (fst (wExec (wrappedClient c) CtxBackground argsList (wstate c)))"
  shows "fst (fst (client_Pipeline c ctx argsList)) ! i =
     \<lparr>Value = fst (getResultFromCommand ((NewCmd (argsList ! i))
          \<lparr>cmd_val := fst (fst (wExec (wrappedClient c) CtxBackground argsList (wstate c)) ! i),
           cmd_err := snd (fst (wExec (wrappedClient c) CtxBackground argsList (wstate c)) ! i)\<rparr>)),
      Err = snd (getResultFromCommand ((NewCmd (argsList ! i))
          \<lparr>cmd_val := fst (fst (wExec (wrappedClient c) CtxBackground argsList (wstate c)) ! i),
           cmd_err := snd (fst (wExec (wrappedClient c) CtxBackground argsList (wstate c)) ! i)\<rparr>))\<rparr>"
  using assms
  by (simp add: client_Pipeline_pairs pipeline_cmds_length)
     (simp add: pipeline_cmds_def set_results_nth)

lemma cache_index_empty: "cache_index [] nm = None"
  by (simp add: cache_index_def)

lemma cache_index_unknown: "nm \<notin> fst ` set cache \<Longrightarrow> cache_index cache nm = None"
proof -
  assume "nm \<notin> fst ` set cache"
  then have "map_of cache nm = None" by (simp add: map_of_eq_None_iff)
  then show ?thesis by (simp add: cache_index_def)
qed

lemma newClient_cache:
  "newClient dial ctx cfg = Inr c \<Longrightarrow>
   cmdCache c = fst (fst (wCommand (fst (dial cfg)) ctx (snd (dial cfg))))"
  by (auto simp: newClient_def Let_def case_prod_beta split: if_splits)

lemma Nil_not_noscript: "\<not> isNoScript (Some goredis_Nil)"
  by (simp add: isNoScript_def goredis_Nil_def HasPrefix_def redisErrNoScript_def)

lemma ctx_not_noscript: "ctx_Err ctx \<noteq> None \<Longrightarrow> \<not> isNoScript (ctx_Err ctx)"
  by (cases ctx) (simp_all add: isNoScript_def HasPrefix_def redisErrNoScript_def)

lemma ctx_not_Nil: "ctx_Err ctx \<noteq> Some goredis_Nil"
  by (cases ctx) (simp_all add: goredis_Nil_def)

lemma gr_noscript: "isNoScript (snd (getResultFromCommand cmd)) = isNoScript (cmd_err cmd)"
  using Nil_not_noscript
  by (cases "cmd_err cmd = Some goredis_Nil")
     (simp_all add: gr_nil gr_other, simp add: isNoScript_def)

lemma client_do_fst:
  "fst (client_do c ctx args) =
     getResultFromCommand ((NewCmd args)
       \<lparr>cmd_val := fst (fst (wDo (wrappedClient c) ctx args (wstate c))),
        cmd_err := snd (fst (wDo (wrappedClient c) ctx args (wstate c)))\<rparr>)"
  by (simp add: client_do_def Let_def case_prod_beta)

lemma client_do_snd:
  "snd (client_do c ctx args) = c\<lparr>wstate := snd (wDo (wrappedClient c) ctx args (wstate c))\<rparr>"
  by (simp add: client_do_def Let_def case_prod_beta)

lemma client_do_noscript:
  "isNoScript (snd (fst (client_do c ctx args)))
     = isNoScript (snd (fst (wDo (wrappedClient c) ctx args (wstate c))))"
  by (simp add: client_do_fst gr_noscript)

lemma client_Run_unfold:
  "client_Run c ctx script kaa =
     (if isNoScript (snd (fst (client_do c ctx (VStr redisEvalSha # GetHashAndArgs script kaa))))
      then client_do (snd (client_do c ctx (VStr redisEvalSha # GetHashAndArgs script kaa))) ctx
             (VStr redisEval # GetScriptAndArgs script kaa)
      else client_do c ctx (VStr redisEvalSha # GetHashAndArgs script kaa))"
  by (cases "client_do c ctx (VStr redisEvalSha # GetHashAndArgs script kaa)")
     (auto simp add: client_Run_def Let_def isNoScript_def)

lemma recording_wDo:
  "wDo (recording w) ctx args s =
     (fst (wDo w ctx args (snd s)), (fst s @ [CallDo ctx args], snd (wDo w ctx args (snd s))))"
  by (simp add: recording_def case_prod_beta)

lemma calls_do:
  "wrappedClient c = recording w \<Longrightarrow>
   calls (snd (client_do c ctx args)) = calls c @ [CallDo ctx args]"
  by (simp add: client_do_snd calls_def recording_wDo)

lemma wrapped_do: "wrappedClient (snd (client_do c ctx args)) = wrappedClient c"
  by (simp add: client_do_snd)

lemma calls_Run:
  assumes "wrappedClient c = recording w"
  shows "calls (snd (client_Run c ctx script kaa)) =
     calls c @
       (if isNoScript (snd (fst (wDo w ctx (VStr redisEvalSha # GetHashAndArgs script kaa)
                                   (snd (wstate c)))))
        then [CallDo ctx (VStr redisEvalSha # GetHashAndArgs script kaa),
              CallDo ctx (VStr redisEval # GetScriptAndArgs script kaa)]
        else [CallDo ctx (VStr redisEvalSha # GetHashAndArgs script kaa)])"
proof -
  have w1: "wrappedClient (snd (client_do c ctx (VStr redisEvalSha # GetHashAndArgs script kaa)))
      = recording w"
    using assms by (simp add: wrapped_do)
  have ns: "isNoScript (snd (fst (client_do c ctx (VStr redisEvalSha # GetHashAndArgs script kaa))))
      = isNoScript (snd (fst (wDo w ctx (VStr redisEvalSha # GetHashAndArgs script kaa)
                                   (snd (wstate c)))))"
    using assms by (simp add: client_do_noscript recording_wDo)
  show ?thesis
    unfolding client_Run_unfold ns
    using assms w1 by (simp add: calls_do)
qed


lemma queueLoadTest_store: "store (queueLoadTest c fn) = store c"
  by (simp add: queueLoadTest_def)

lemma queueLoadTest_client: "client (queueLoadTest c fn) = client c"
  by (simp add: queueLoadTest_def)

lemma on_primary_fst: "fst (on_primary c f) = fst (f (store c ! client c))"
  by (simp add: on_primary_def case_prod_beta)



lemma stub_client_wrapped: "wrappedClient (stub_client a) = recording stub_wrapper"
  by (simp add: stub_client_def)

lemma stub_client_calls: "calls (stub_client a) = []"
  by (simp add: stub_client_def calls_def)


lemma recording_wExec:
  "wExec (recording w) ctx al s =
     (fst (wExec w ctx al (snd s)), (fst s @ [CallExec ctx al], snd (wExec w ctx al (snd s))))"
  by (simp add: recording_def case_prod_beta)

lemma recording_wPublish:
  "wPublish (recording w) ctx ch v s =
     (fst (wPublish w ctx ch v (snd s)),
      (fst s @ [CallPublish ctx ch v], snd (wPublish w ctx ch v (snd s))))"
  by (simp add: recording_def case_prod_beta)

lemma recording_wSubscribe:
  "wSubscribe (recording w) ctx chans s =
     (fst (wSubscribe w ctx chans (snd s)),
      (fst s @ [CallSubscribe ctx chans], snd (wSubscribe w ctx chans (snd s))))"
  by (simp add: recording_def case_prod_beta)

lemma calls_Pipeline:
  "wrappedClient c = recording w \<Longrightarrow>
   calls (snd (client_Pipeline c ctx al)) = calls c @ [CallExec CtxBackground al]"
  by (simp add: client_Pipeline_def Let_def case_prod_beta calls_def recording_wExec
      map_args_NewCmd)

lemma calls_Publish:
  "wrappedClient c = recording w \<Longrightarrow>
   calls (snd (client_Publish c ctx ch v)) = calls c @ [CallPublish CtxBackground ch v]"
  by (simp add: client_Publish_def Let_def case_prod_beta calls_def recording_wPublish)

lemma calls_Subscribe:
  "wrappedClient c = recording w \<Longrightarrow>
   calls (snd (client_Subscribe c ctx n chans)) = calls c @ [CallSubscribe CtxBackground chans]"
  by (simp add: client_Subscribe_def Let_def case_prod_beta calls_def recording_wSubscribe)

lemma Do_ctx_error:
  assumes "honours_ctx (wrappedClient c)" and "ctx_Err ctx \<noteq> None"
  shows "snd (fst (client_do c ctx args)) = ctx_Err ctx"
proof -
  have "snd (fst (wDo (wrappedClient c) ctx args (wstate c))) = ctx_Err ctx"
    using assms by (simp add: honours_ctx_def)
  then show ?thesis
    using ctx_not_Nil [of ctx] by (simp add: client_do_fst gr_other)
qed

lemma Run_ctx_error:
  assumes "honours_ctx (wrappedClient c)" and "ctx_Err ctx \<noteq> None"
  shows "snd (fst (client_Run c ctx script kaa)) = ctx_Err ctx"
  using Do_ctx_error [OF assms] ctx_not_noscript [OF assms(2)]
  by (simp add: client_Run_unfold)

lemma Pipeline_ignores_ctx: "client_Pipeline c ctx al = client_Pipeline c CtxBackground al"
  by (simp add: client_Pipeline_def)

lemma Publish_ignores_ctx: "client_Publish c ctx ch v = client_Publish c CtxBackground ch v"
  by (simp add: client_Publish_def)

lemma Subscribe_ignores_ctx: "client_Subscribe c ctx n chans = client_Subscribe c CtxBackground n chans"
  by (simp add: client_Subscribe_def)

lemma connector_Do_fst:
  "fst (connector_Do conn ctx cmdName args)
     = fst (client_Do (store conn ! client conn) ctx cmdName args)"
  by (simp add: connector_Do_def on_primary_fst queueLoadTest_store queueLoadTest_client)

lemma stub_honours: "honours_ctx (wrappedClient (stub_client a))"
  by (simp add: honours_ctx_def stub_client_def recording_def stub_wrapper_def stub_answer_def)

lemmas cfg_eval = stub_config_def ClientConfig_init_def validateReload_def validate_def
  isAddrsEquals_def ClientMode_IsValid_def ReadMode_IsValid_def ModeSingleHost_def
  ModeCluster_def ModeMasterSlaveGroup_def ModeReadFromMaster_def ModeReadFromSlaves_def
  ModeReadRandomly_def ModeReadByLatency_def ucmEmptyString_def defaultHostAndPort_def
  reload_common_def Hystrix_Equals_def clientWrapperImpl_reload_def clusterWrapperImpl_reload_def
  clientImpl_reload_def name_def Let_def

lemma stub_reload_same:
  "clientImpl_reload (stub_client [a]) (stub_config [a]) = (None, stub_client [a])"
  by (simp add: stub_client_def cfg_eval)

lemma stub_newClient:
  "newClient stub_dial CtxBackground (stub_config [a]) = Inr (stub_client [a]\<lparr>wstate := ([CallCommand CtxBackground], ()), cmdCache := [(''get'', Some \<lparr>Name = ''get'', ReadOnly = True\<rparr>),
            (''set'', Some \<lparr>Name = ''set'', ReadOnly = False\<rparr>)]\<rparr>)"
  by (simp add: newClient_def stub_dial_def stub_client_def recording_def stub_wrapper_def cfg_eval)














lemma backlog_avg: "latencies_Average (sched_latencies backlog_scheduler) = 1000000000"
  by (simp add: latencies_Average_def backlog_scheduler_def Let_def)

lemma backlog_need: "tick_need 3 1000000000 = 3"
  by (simp add: tick_need_def)

subsection \<open>Error classification of the breaker\<close>

text \<open>
  Claim C1. Under the default options the breaker tracks an observed error exactly
  when \<open>shouldCountAsCBError\<close> holds of it, so the tracked-error count of a sequence
  of observed errors is the number of threats in it. A nil error, an error that is a
  context cancellation, and a server-reported error (one of the lower layer's error
  type) that is not a read-only error are not threats; a deadline expiry, a read-only
  error that is not a cancellation, and every error that is neither of the lower
  layer's error type nor a cancellation are threats.
\<close>

theorem C1_default_predicate:
  "tracked_by_breaker (getDefaultCBOptions ro) err = shouldCountAsCBError ro err \<and>
   tracked_count (getDefaultCBOptions ro) errs = length (filter (shouldCountAsCBError ro) errs) \<and>
   \<not> shouldCountAsCBError ro None \<and>
   (errors_Is e ContextCanceled \<longrightarrow> \<not> shouldCountAsCBError ro (Some e)) \<and>
   (is_goredis_Error e \<and> \<not> ro e \<longrightarrow> \<not> shouldCountAsCBError ro (Some e)) \<and>
   shouldCountAsCBError ro (Some ContextDeadlineExceeded) \<and>
   (ro e \<and> \<not> errors_Is e ContextCanceled \<longrightarrow> shouldCountAsCBError ro (Some e)) \<and>
   (\<not> is_goredis_Error e \<and> \<not> errors_Is e ContextCanceled \<longrightarrow> shouldCountAsCBError ro (Some e))"
proof -
  have t: "tracked_by_breaker (getDefaultCBOptions ro) = shouldCountAsCBError ro"
    by (rule ext) (rule default_handler_tracks)
  show ?thesis
    by (simp add: t tracked_count_def) (simp add: shouldCountAsCBError_def)
qed

theorem C1_witness:
  "tracked_count (getDefaultCBOptions readOnlyPrefix)
     [None, Some ContextCanceled, Some (RedisError ''ERR unknown command''),
      Some ContextDeadlineExceeded, Some (RedisError ''READONLY replica''),
      Some (ErrorString ''i/o timeout'')] = 3 \<and>
   \<not> shouldCountAsCBError readOnlyPrefix (Some (Wrapped ''get: context canceled'' ContextCanceled)) \<and>
   \<not> shouldCountAsCBError readOnlyPrefix (Some (RedisError ''ERR unknown command'')) \<and>
   shouldCountAsCBError readOnlyPrefix (Some (RedisError ''READONLY replica'')) \<and>
   shouldCountAsCBError readOnlyPrefix (Some (ErrorString ''i/o timeout''))"
  using
    C1_default_predicate [of readOnlyPrefix None
      "[None, Some ContextCanceled, Some (RedisError ''ERR unknown command''),
        Some ContextDeadlineExceeded, Some (RedisError ''READONLY replica''),
        Some (ErrorString ''i/o timeout'')]" "Wrapped ''get: context canceled'' ContextCanceled"]
    C1_default_predicate [of readOnlyPrefix None "[]" "RedisError ''ERR unknown command''"]
    C1_default_predicate [of readOnlyPrefix None "[]" "RedisError ''READONLY replica''"]
    C1_default_predicate [of readOnlyPrefix None "[]" "ErrorString ''i/o timeout''"]
  by (simp add: shouldCountAsCBError_def readOnlyPrefix_def HasPrefix_def)

subsection \<open>Script arguments\<close>

text \<open>
  Claim C9. For a script with key count \<open>k\<close> and any argument list,
  \<open>GetHashAndArgs\<close> gives the hash, then \<open>k\<close>, then the arguments when \<open>k\<close> is not
  negative, and the hash followed by the arguments when \<open>k\<close> is negative;
  \<open>GetScriptAndArgs\<close> gives the same list with the source in place of the hash.
\<close>

theorem C9_script_args:
  "(0 \<le> keyCount s \<longrightarrow>
      GetHashAndArgs s kaa = VStr (hash s) # VInt (keyCount s) # kaa \<and>
      GetScriptAndArgs s kaa = VStr (src s) # VInt (keyCount s) # kaa) \<and>
   (keyCount s < 0 \<longrightarrow>
      GetHashAndArgs s kaa = VStr (hash s) # kaa \<and>
      GetScriptAndArgs s kaa = VStr (src s) # kaa) \<and>
   GetScriptAndArgs s kaa = (GetHashAndArgs s kaa)[0 := VStr (src s)]"
  by (simp add: GetHashAndArgs_def GetScriptAndArgs_def script_args_def)

theorem C9_witness:
  "GetHashAndArgs \<lparr>keyCount = 2, src = ''return 1'', hash = ''abc''\<rparr> [VStr ''k1'', VStr ''k2'']
     = [VStr ''abc'', VInt 2, VStr ''k1'', VStr ''k2''] \<and>
   GetScriptAndArgs \<lparr>keyCount = - 1, src = ''return 1'', hash = ''abc''\<rparr> [VInt 1, VStr ''k1'']
     = [VStr ''return 1'', VInt 1, VStr ''k1'']"
  using C9_script_args [of "\<lparr>keyCount = 2, src = ''return 1'', hash = ''abc''\<rparr>" "[VStr ''k1'', VStr ''k2'']"]
    C9_script_args [of "\<lparr>keyCount = - 1, src = ''return 1'', hash = ''abc''\<rparr>" "[VInt 1, VStr ''k1'']"]
  by simp

subsection \<open>Pipelines\<close>

text \<open>
  Claim C5. A pipeline call with \<open>N\<close> input tuples returns exactly \<open>N\<close> pairs; the
  \<open>i\<close>-th pair is the result of the command object made from the \<open>i\<close>-th tuple, its
  error kept in that slot; and the aggregate error is the first non-nil error among
  the pairs, nil when there is none.
\<close>

theorem C5_pipeline_results:
  "length (fst (fst (client_Pipeline c ctx argsList))) = length argsList \<and>
   length (pipeline_cmds c argsList) = length argsList \<and>
   (\<forall>i < length argsList.
      cmd_args (pipeline_cmds c argsList ! i) = argsList ! i \<and>
      Value (fst (fst (client_Pipeline c ctx argsList)) ! i)
        = fst (getResultFromCommand (pipeline_cmds c argsList ! i)) \<and>
      Err (fst (fst (client_Pipeline c ctx argsList)) ! i)
        = snd (getResultFromCommand (pipeline_cmds c argsList ! i))) \<and>
   snd (fst (client_Pipeline c ctx argsList))
     = first_err (fst (fst (client_Pipeline c ctx argsList)))"
proof -
  have len: "length (pipeline_cmds c argsList) = length argsList"
    by (rule pipeline_cmds_length)
  have args: "map cmd_args (pipeline_cmds c argsList) = argsList"
    by (simp add: pipeline_cmds_def set_results_args map_args_NewCmd)
  have nth_args: "\<forall>i < length argsList. cmd_args (pipeline_cmds c argsList ! i) = argsList ! i"
    using args len by (metis nth_map)
  have agg: "snd (fst (client_Pipeline c ctx argsList))
     = first_err (fst (fst (client_Pipeline c ctx argsList)))"
    by (simp add: client_Pipeline_results getResultFromCommands_def loop_snd)
  show ?thesis using len nth_args agg by (simp add: client_Pipeline_pairs)
qed

theorem C5_witness:
  "fst (client_Pipeline (stub_client [''a:1'']) CtxBackground
          [[VStr ''PING''], [VStr ''FOO''], [VStr ''GET'', VStr ''k''], [VStr ''BAR'']])
   = ([\<lparr>Value = Some (VStr ''PONG''), Err = None\<rparr>,
       \<lparr>Value = None, Err = Some (RedisError ''ERR unknown command'')\<rparr>,
       \<lparr>Value = None, Err = None\<rparr>,
       \<lparr>Value = None, Err = Some (RedisError ''ERR unknown command'')\<rparr>],
      Some (RedisError ''ERR unknown command''))"
  using C5_pipeline_results [of "stub_client [''a:1'']" CtxBackground
     "[[VStr ''PING''], [VStr ''FOO''], [VStr ''GET'', VStr ''k''], [VStr ''BAR'']]"]
  by (simp add: client_Pipeline_def stub_client_def recording_def stub_wrapper_def
      stub_answer_def stub_reply_def getResultFromCommands_def getResultFromCommand_def
      Cmd_Result_def NewCmd_def goredis_Nil_def Let_def)

subsection \<open>The nil reply\<close>

text \<open>
  Claim C10. When the lower layer answers a command with its nil-reply sentinel error
  and no value, \<open>Do\<close> and the slot of that command in \<open>Pipeline\<close> hold a nil value
  and a nil error; every other answer of the lower layer, error included, is
  returned unchanged.
\<close>

theorem C10_nil_reply:
  "(cmd_err cmd = Some goredis_Nil \<longrightarrow> getResultFromCommand cmd = (cmd_val cmd, None)) \<and>
   (cmd_err cmd \<noteq> Some goredis_Nil \<longrightarrow> getResultFromCommand cmd = (cmd_val cmd, cmd_err cmd)) \<and>
   (fst (wDo (wrappedClient c) ctx (VStr cmdName # args) (wstate c)) = (None, Some goredis_Nil)
      \<longrightarrow> fst (client_Do c ctx cmdName args) = (None, None)) \<and>
   (snd (fst (wDo (wrappedClient c) ctx (VStr cmdName # args) (wstate c))) \<noteq> Some goredis_Nil
      \<longrightarrow> fst (client_Do c ctx cmdName args)
            = fst (wDo (wrappedClient c) ctx (VStr cmdName # args) (wstate c))) \<and>
   (\<forall>i. i < length argsList \<and>
         i < length (fst (wExec (wrappedClient c) CtxBackground argsList (wstate c))) \<longrightarrow>
      (fst (wExec (wrappedClient c) CtxBackground argsList (wstate c)) ! i
          = (None, Some goredis_Nil)
         \<longrightarrow> fst (fst (client_Pipeline c ctx argsList)) ! i = \<lparr>Value = None, Err = None\<rparr>) \<and>
      (snd (fst (wExec (wrappedClient c) CtxBackground argsList (wstate c)) ! i)
          \<noteq> Some goredis_Nil
         \<longrightarrow> fst (fst (client_Pipeline c ctx argsList)) ! i
             = \<lparr>Value = fst (fst (wExec (wrappedClient c) CtxBackground argsList (wstate c)) ! i),
                Err = snd (fst (wExec (wrappedClient c) CtxBackground argsList (wstate c)) ! i)\<rparr>))"
  by (simp add: gr_nil gr_other client_Do_result pipeline_slot)

theorem C10_witness:
  "fst (client_Do (stub_client [''a:1'']) CtxBackground ''GET'' [VStr ''absent'']) = (None, None) \<and>
   fst (client_Do (stub_client [''a:1'']) CtxBackground ''FOO'' [])
     = (None, Some (RedisError ''ERR unknown command'')) \<and>
   fst (fst (client_Pipeline (stub_client [''a:1'']) CtxBackground
          [[VStr ''FOO''], [VStr ''GET'', VStr ''absent'']]))
     = [\<lparr>Value = None, Err = Some (RedisError ''ERR unknown command'')\<rparr>,
        \<lparr>Value = None, Err = None\<rparr>]"
proof -
  let ?c = "stub_client [''a:1'']"
  let ?al = "[[VStr ''FOO''], [VStr ''GET'', VStr ''absent'']]"
  have ex: "fst (wExec (wrappedClient ?c) CtxBackground ?al (wstate ?c))
      = [(None, Some (RedisError ''ERR unknown command'')), (None, Some goredis_Nil)]"
    by (simp add: stub_client_def recording_def stub_wrapper_def stub_answer_def stub_reply_def)
  have d1: "fst (wDo (wrappedClient ?c) CtxBackground (VStr ''GET'' # [VStr ''absent'']) (wstate ?c))
      = (None, Some goredis_Nil)"
    by (simp add: stub_client_def recording_def stub_wrapper_def stub_answer_def stub_reply_def)
  have d2: "fst (wDo (wrappedClient ?c) CtxBackground (VStr ''FOO'' # []) (wstate ?c))
      = (None, Some (RedisError ''ERR unknown command''))"
    by (simp add: stub_client_def recording_def stub_wrapper_def stub_answer_def stub_reply_def)
  have len: "length (fst (fst (client_Pipeline ?c CtxBackground ?al))) = 2"
    by (simp add: client_Pipeline_pairs pipeline_cmds_length)
  have a: "fst (client_Do ?c CtxBackground ''GET'' [VStr ''absent'']) = (None, None)"
    using C10_nil_reply [of undefined ?c CtxBackground "''GET''" "[VStr ''absent'']" ?al] d1
    by simp
  have b: "fst (client_Do ?c CtxBackground ''FOO'' []) = (None, Some (RedisError ''ERR unknown command''))"
    using C10_nil_reply [of undefined ?c CtxBackground "''FOO''" "[]" ?al] d2
    by (simp add: goredis_Nil_def)
  have p: "\<forall>i. i < 2 \<longrightarrow> fst (fst (client_Pipeline ?c CtxBackground ?al)) ! i
      = [\<lparr>Value = None, Err = Some (RedisError ''ERR unknown command'')\<rparr>,
         \<lparr>Value = None, Err = None\<rparr>] ! i"
    using C10_nil_reply [of undefined ?c CtxBackground "''FOO''" "[]" ?al]
    by (simp add: ex goredis_Nil_def less_Suc_eq numeral_2_eq_2)
  have "fst (fst (client_Pipeline ?c CtxBackground ?al))
      = [\<lparr>Value = None, Err = Some (RedisError ''ERR unknown command'')\<rparr>,
         \<lparr>Value = None, Err = None\<rparr>]"
    using p len by (simp add: list_eq_iff_nth_eq)
  with a b show ?thesis by simp
qed

subsection \<open>The command catalog\<close>

text \<open>
  Claim C8, amended. The catalog fetched at client construction is cached as the
  lower layer returns it, under the command names as the lower layer reports them;
  the code converts neither these keys nor the name that is looked up. For every name
  the read-only lookup returns the flag of the record and a nil error on a hit, and
  false with the error \<open>no command cache\<close> on a miss; an empty cache and a name that
  is not a key are misses.
\<close>

theorem C8_command_cache:
  "(newClient dial ctx cfg = Inr c \<longrightarrow>
      cmdCache c = fst (fst (wCommand (fst (dial cfg)) ctx (snd (dial cfg))))) \<and>
   (cache_index cache nm = Some info \<longrightarrow> ifCommandReadonly cache nm = (ReadOnly info, None)) \<and>
   (cache_index cache nm = None \<longrightarrow>
      ifCommandReadonly cache nm = (False, Some (ErrorString ''no command cache''))) \<and>
   (cache = [] \<or> nm \<notin> fst ` set cache \<longrightarrow>
      ifCommandReadonly cache nm = (False, Some (ErrorString ''no command cache'')))"
proof -
  have hit: "cache_index cache nm = Some info \<Longrightarrow> cache \<noteq> []"
    by (auto simp: cache_index_def)
  have miss: "cache = [] \<or> nm \<notin> fst ` set cache \<Longrightarrow> cache_index cache nm = None"
    using cache_index_empty [of nm] cache_index_unknown [of nm cache] by auto
  show ?thesis
    using hit miss newClient_cache [of dial ctx cfg c]
    by (auto simp: ifCommandReadonly_def)
qed

theorem C8_witness:
  "cmdCache (projr (newClient stub_dial CtxBackground (stub_config [''a:1''])))
     = [(''get'', Some \<lparr>Name = ''get'', ReadOnly = True\<rparr>),
        (''set'', Some \<lparr>Name = ''set'', ReadOnly = False\<rparr>)] \<and>
   ifCommandReadonly (cmdCache (projr (newClient stub_dial CtxBackground (stub_config [''a:1'']))))
      ''get'' = (True, None) \<and>
   ifCommandReadonly (cmdCache (projr (newClient stub_dial CtxBackground (stub_config [''a:1'']))))
      ''set'' = (False, None) \<and>
   ifCommandReadonly (cmdCache (projr (newClient stub_dial CtxBackground (stub_config [''a:1'']))))
      ''del'' = (False, Some (ErrorString ''no command cache'')) \<and>
   ifCommandReadonly [] ''get'' = (False, Some (ErrorString ''no command cache''))"
proof -
  let ?c = "projr (newClient stub_dial CtxBackground (stub_config [''a:1'']))"
  let ?m = "[(''get'', Some \<lparr>Name = ''get'', ReadOnly = True\<rparr>),
             (''set'', Some \<lparr>Name = ''set'', ReadOnly = False\<rparr>)]"
  have n: "newClient stub_dial CtxBackground (stub_config [''a:1'']) = Inr ?c"
    by (simp add: newClient_def stub_dial_def stub_config_def ModeSingleHost_def
        ModeCluster_def ModeMasterSlaveGroup_def Let_def case_prod_beta)
  have w: "fst (fst (wCommand (fst (stub_dial (stub_config [''a:1'']))) CtxBackground
             (snd (stub_dial (stub_config [''a:1'']))))) = ?m"
    by (simp add: stub_dial_def recording_def stub_wrapper_def)
  have m: "cmdCache ?c = ?m"
    using C8_command_cache [of stub_dial CtxBackground "stub_config [''a:1'']" ?c "[]" "''get''"] n w
    by simp
  have g: "ifCommandReadonly ?m ''get'' = (True, None)"
    using C8_command_cache [of stub_dial CtxBackground "stub_config [''a:1'']" ?c ?m "''get''"
        "\<lparr>Name = ''get'', ReadOnly = True\<rparr>"]
    by (simp add: cache_index_def)
  have s: "ifCommandReadonly ?m ''set'' = (False, None)"
    using C8_command_cache [of stub_dial CtxBackground "stub_config [''a:1'']" ?c ?m "''set''"
        "\<lparr>Name = ''set'', ReadOnly = False\<rparr>"]
    by (simp add: cache_index_def)
  have d: "ifCommandReadonly ?m ''del'' = (False, Some (ErrorString ''no command cache''))"
    using C8_command_cache [of stub_dial CtxBackground "stub_config [''a:1'']" ?c ?m "''del''"]
    by simp
  have e: "ifCommandReadonly [] ''get'' = (False, Some (ErrorString ''no command cache''))"
    using C8_command_cache [of stub_dial CtxBackground "stub_config [''a:1'']" ?c "[]" "''get''"]
    by simp
  show ?thesis using m g s d e by simp
qed

text \<open>
  As the claim is written, the cache is keyed by upper-case names. With a lower layer
  that reports the names in lower case the cache has lower-case keys, and the
  upper-case name of a catalogued command is a miss.
\<close>

theorem C8_counterexample:
  "map fst (cmdCache (projr (newClient stub_dial CtxBackground (stub_config [''a:1'']))))
     = [''get'', ''set''] \<and>
   ifCommandReadonly (cmdCache (projr (newClient stub_dial CtxBackground (stub_config [''a:1'']))))
      ''GET'' = (False, Some (ErrorString ''no command cache'')) \<and>
   ifCommandReadonly (cmdCache (projr (newClient stub_dial CtxBackground (stub_config [''a:1'']))))
      ''get'' = (True, None)"
  by (simp add: newClient_def stub_dial_def stub_config_def ModeSingleHost_def
        ModeCluster_def ModeMasterSlaveGroup_def Let_def case_prod_beta
        recording_def stub_wrapper_def ifCommandReadonly_def cache_index_def)

subsection \<open>Script execution\<close>




subsection \<open>The caller's context\<close>

text \<open>
  Claim C7, amended. \<open>Do\<close> and \<open>Run\<close> issue every command of the primary attempt
  under the caller's context, and when the lower layer answers under a finished
  context with that context's error (cancellation or deadline expiry), this error is
  what the caller gets. \<open>Pipeline\<close>, \<open>Publish\<close> and \<open>Subscribe\<close> issue the primary
  attempt under a background context: what they do and return does not depend on the
  caller's context. The connector returns the result of its primary client in each
  case.
\<close>

theorem C7_caller_context:
  assumes "wrappedClient c = recording w"
  shows
  "calls (snd (client_Do c ctx cmdName args)) = calls c @ [CallDo ctx (VStr cmdName # args)] \<and>
   (\<forall>x \<in> set (drop (length (calls c)) (calls (snd (client_Run c ctx script kaa)))).
       \<exists>a. x = CallDo ctx a) \<and>
   (honours_ctx (wrappedClient c) \<and> ctx_Err ctx \<noteq> None \<longrightarrow>
       snd (fst (client_Do c ctx cmdName args)) = ctx_Err ctx \<and>
       snd (fst (client_Run c ctx script kaa)) = ctx_Err ctx) \<and>
   calls (snd (client_Pipeline c ctx al)) = calls c @ [CallExec CtxBackground al] \<and>
   calls (snd (client_Publish c ctx ch v)) = calls c @ [CallPublish CtxBackground ch v] \<and>
   calls (snd (client_Subscribe c ctx n chans)) = calls c @ [CallSubscribe CtxBackground chans] \<and>
   client_Pipeline c ctx al = client_Pipeline c CtxBackground al \<and>
   client_Publish c ctx ch v = client_Publish c CtxBackground ch v \<and>
   client_Subscribe c ctx n chans = client_Subscribe c CtxBackground n chans \<and>
   fst (connector_Do conn ctx cmdName args)
     = fst (client_Do (store conn ! client conn) ctx cmdName args) \<and>
   fst (connector_Run conn ctx script kaa)
     = fst (client_Run (store conn ! client conn) ctx script kaa) \<and>
   fst (connector_Pipeline conn ctx al)
     = fst (client_Pipeline (store conn ! client conn) CtxBackground al) \<and>
   fst (connector_Publish conn ctx ch v)
     = fst (client_Publish (store conn ! client conn) CtxBackground ch v) \<and>
   fst (connector_Subscribe conn ctx n chans)
     = fst (client_Subscribe (store conn ! client conn) CtxBackground n chans)"
proof -
  have d: "calls (snd (client_Do c ctx cmdName args)) = calls c @ [CallDo ctx (VStr cmdName # args)]"
    using assms by (simp add: client_Do_def calls_do)
  have r: "\<forall>x \<in> set (drop (length (calls c)) (calls (snd (client_Run c ctx script kaa)))).
       \<exists>a. x = CallDo ctx a"
    using calls_Run [OF assms, of ctx script kaa] by simp
  have e: "honours_ctx (wrappedClient c) \<and> ctx_Err ctx \<noteq> None \<longrightarrow>
       snd (fst (client_Do c ctx cmdName args)) = ctx_Err ctx \<and>
       snd (fst (client_Run c ctx script kaa)) = ctx_Err ctx"
    using Do_ctx_error [of c ctx] Run_ctx_error [of c ctx] by (simp add: client_Do_def)
  have p: "fst (connector_Pipeline conn ctx al)
     = fst (client_Pipeline (store conn ! client conn) CtxBackground al)"
    using Pipeline_ignores_ctx [of "store conn ! client conn" ctx al]
    by (simp add: connector_Pipeline_def on_primary_fst queueLoadTest_store queueLoadTest_client)
  have pb: "fst (connector_Publish conn ctx ch v)
     = fst (client_Publish (store conn ! client conn) CtxBackground ch v)"
    using Publish_ignores_ctx [of "store conn ! client conn" ctx ch v]
    by (simp add: connector_Publish_def on_primary_fst queueLoadTest_store queueLoadTest_client)
  have sb: "fst (connector_Subscribe conn ctx n chans)
     = fst (client_Subscribe (store conn ! client conn) CtxBackground n chans)"
    using Subscribe_ignores_ctx [of "store conn ! client conn" ctx n chans]
    by (simp add: connector_Subscribe_def on_primary_fst queueLoadTest_store queueLoadTest_client)
  have rn: "fst (connector_Run conn ctx script kaa)
     = fst (client_Run (store conn ! client conn) ctx script kaa)"
    by (simp add: connector_Run_def on_primary_fst queueLoadTest_store queueLoadTest_client)
  show ?thesis
    using d r e p pb sb rn assms
      Pipeline_ignores_ctx [of c ctx al] Publish_ignores_ctx [of c ctx ch v]
      Subscribe_ignores_ctx [of c ctx n chans]
    by (simp add: calls_Pipeline calls_Publish calls_Subscribe connector_Do_fst)
qed

theorem C7_witness:
  "fst (client_Do (stub_client [''a:1'']) CtxCanceled ''PING'' []) = (None, Some ContextCanceled) \<and>
   snd (fst (client_Run (stub_client [''a:1'']) CtxCanceled stub_script [])) = Some ContextCanceled \<and>
   calls (snd (client_Do (stub_client [''a:1'']) CtxCanceled ''PING'' []))
     = [CallDo CtxCanceled [VStr ''PING'']] \<and>
   calls (snd (client_Pipeline (stub_client [''a:1'']) CtxCanceled [[VStr ''PING'']]))
     = [CallExec CtxBackground [[VStr ''PING'']]]"
proof -
  note t = C7_caller_context [OF stub_client_wrapped, of "[''a:1'']" CtxCanceled "''PING''" "[]"
        stub_script "[]" "[[VStr ''PING'']]" "''ch''" "VStr ''m''" 1 "[''ch'']"
        "stub_connector [''a:1''] [] False"]
  have v: "fst (fst (client_Do (stub_client [''a:1'']) CtxCanceled ''PING'' [])) = None"
    by (simp add: client_Do_def client_do_fst stub_client_def recording_def stub_wrapper_def
        stub_answer_def getResultFromCommand_def Cmd_Result_def NewCmd_def)
  have d: "calls (snd (client_Do (stub_client [''a:1'']) CtxCanceled ''PING'' []))
     = [CallDo CtxCanceled [VStr ''PING'']]"
    using t [THEN conjunct1] by (simp add: stub_client_calls)
  have e: "snd (fst (client_Do (stub_client [''a:1'']) CtxCanceled ''PING'' [])) = Some ContextCanceled \<and>
       snd (fst (client_Run (stub_client [''a:1'']) CtxCanceled stub_script [])) = Some ContextCanceled"
    using t [THEN conjunct2, THEN conjunct2, THEN conjunct1] stub_honours [of "[''a:1'']"]
    by simp
  have p: "calls (snd (client_Pipeline (stub_client [''a:1'']) CtxCanceled [[VStr ''PING'']]))
     = [CallExec CtxBackground [[VStr ''PING'']]]"
    using t [THEN conjunct2, THEN conjunct2, THEN conjunct2, THEN conjunct1]
    by (simp add: stub_client_calls)
  show ?thesis using v d e p by (simp add: prod_eq_iff)
qed

text \<open>
  As the claim is written, cancelling the caller's context cancels the primary attempt
  of every dispatcher call. With a lower layer that answers a command under a
  cancelled context with the cancellation error, \<open>Pipeline\<close>, \<open>Publish\<close> and
  \<open>Subscribe\<close> called with a cancelled context still succeed.
\<close>

theorem C7_counterexample:
  "fst (wDo stub_wrapper CtxCanceled [VStr ''PING''] ()) = (None, Some ContextCanceled) \<and>
   fst (connector_Pipeline (stub_connector [''a:1''] [] False) CtxCanceled [[VStr ''PING'']])
     = ([\<lparr>Value = Some (VStr ''PONG''), Err = None\<rparr>], None) \<and>
   fst (connector_Publish (stub_connector [''a:1''] [] False) CtxCanceled ''ch'' (VStr ''m''))
     = (Some (VInt 1), None) \<and>
   snd (fst (connector_Subscribe (stub_connector [''a:1''] [] False) CtxCanceled 1 [''ch'']))
     = None"
  by (simp add: connector_Pipeline_def connector_Publish_def connector_Subscribe_def
      on_primary_fst queueLoadTest_store queueLoadTest_client stub_connector_def
      client_Pipeline_def client_Publish_def client_Subscribe_def
      stub_client_def recording_def stub_wrapper_def stub_answer_def stub_reply_def
      getResultFromCommands_def getResultFromCommand_def Cmd_Result_def NewCmd_def
      goredis_Nil_def Let_def)

subsection \<open>Reload\<close>




text \<open>
  Claim C3. A reload must reject every load-test configuration whose addresses equal
  the primary's. On the path that constructs a new load-test client the check is
  missing: a connector without load-test clients accepts a load-test configuration
  with the primary's address and installs the client. On the path that matches an
  existing load-test client by name the reload is rejected.
\<close>

theorem C3_shared_address_accepted:
  "fst (connector_reload stub_dial CtxBackground
          (stub_connector [''127.0.0.1:6379''] [] False)
          (stub_connector_config (stub_config [''127.0.0.1:6379''])
             [stub_config [''127.0.0.1:6379'']] False)) = None \<and>
   loadTestClients (snd (connector_reload stub_dial CtxBackground
          (stub_connector [''127.0.0.1:6379''] [] False)
          (stub_connector_config (stub_config [''127.0.0.1:6379''])
             [stub_config [''127.0.0.1:6379'']] False))) = [1] \<and>
   map (\<lambda>c. Addrs (config c)) (store (snd (connector_reload stub_dial CtxBackground
          (stub_connector [''127.0.0.1:6379''] [] False)
          (stub_connector_config (stub_config [''127.0.0.1:6379''])
             [stub_config [''127.0.0.1:6379'']] False))))
     = [[''127.0.0.1:6379''], [''127.0.0.1:6379'']] \<and>
   fst (connector_reload stub_dial CtxBackground
          (stub_connector [''127.0.0.1:6379''] [[''127.0.0.1:6379'']] False)
          (stub_connector_config (stub_config [''127.0.0.1:6379''])
             [stub_config [''127.0.0.1:6379'']] False)) = Some shareAddrError"
proof -
  let ?a = "''127.0.0.1:6379''"
  have nm: "name (stub_config [?a]) = (?a, stub_config [?a])"
    by (simp add: cfg_eval)
  have r1: "connector_reload stub_dial CtxBackground (stub_connector [?a] [] False)
          (stub_connector_config (stub_config [?a]) [stub_config [?a]] False)
      = (None, (stub_connector [?a] [] False)
           \<lparr>store := [stub_client [?a],
               stub_client [?a]\<lparr>wstate := ([CallCommand CtxBackground], ()),
                 cmdCache := [(''get'', Some \<lparr>Name = ''get'', ReadOnly = True\<rparr>),
                              (''set'', Some \<lparr>Name = ''set'', ReadOnly = False\<rparr>)]\<rparr>],
             loadTestClients := [1]\<rparr>)"
    by (simp add: connector_reload_def stub_connector_def stub_connector_config_def
        stub_reload_same nm stub_newClient map_get_def shutdown_all_def)
  have eq: "isAddrsEquals [?a] [?a] = (True, [?a], [?a])"
    by (simp add: isAddrsEquals_def)
  have cfgc: "config (stub_client [?a]) = stub_config [?a]" "Addrs (stub_config [?a]) = [?a]"
    by (simp_all add: stub_client_def stub_config_def)
  have r2: "fst (connector_reload stub_dial CtxBackground (stub_connector [?a] [[?a]] False)
          (stub_connector_config (stub_config [?a]) [stub_config [?a]] False))
      = Some shareAddrError"
    by (simp add: connector_reload_def stub_connector_def stub_connector_config_def
        stub_reload_same nm map_get_def cfgc eq Let_def)
  show ?thesis unfolding r1 r2 by (simp add: stub_client_def stub_config_def)
qed

theorem C3_witness:
  "fst (connector_reload stub_dial CtxBackground
          (stub_connector [''127.0.0.1:6379''] [] False)
          (stub_connector_config (stub_config [''127.0.0.1:6379''])
             [stub_config [''127.0.0.1:6379'']] False)) \<noteq> Some shareAddrError \<and>
   length (loadTestClients (snd (connector_reload stub_dial CtxBackground
          (stub_connector [''127.0.0.1:6379''] [] False)
          (stub_connector_config (stub_config [''127.0.0.1:6379''])
             [stub_config [''127.0.0.1:6379'']] False)))) = 1"
  using C3_shared_address_accepted by simp

subsection \<open>The monitor of the scheduler\<close>

text \<open>
  Claim C6. On a tick with queue depth \<open>b\<close> the monitor is to spawn at most
  \<open>need\<close> workers and never let the number of live workers exceed \<open>maxWorker\<close>.
  The loop compares the counter \<open>numWorker\<close> with \<open>maxWorker\<close>, but a new worker
  raises the counter only when its goroutine begins to run. With three queued
  closures, an average latency of one second and \<open>maxWorker = 1\<close>, \<open>need\<close> is
  three; when none of the new goroutines runs before the loop ends, three workers are
  spawned and three are live. When each goroutine runs before the next test of the
  loop condition, one worker is spawned.
\<close>

theorem C6_workers_exceed_maxWorker:
  "tick_need (length (fnChan backlog_scheduler))
      (latencies_Average (sched_latencies backlog_scheduler)) = 3 \<and>
   maxWorker backlog_scheduler = 1 \<and>
   spawned (monitor_tick [] backlog_scheduler) = 3 \<and>
   numWorker (all_started (monitor_tick [] backlog_scheduler)) = 3 \<and>
   numWorker (all_started (monitor_tick [0, 1, 1] backlog_scheduler)) = 1"
proof -
  have l: "length (fnChan backlog_scheduler) = 3" by (simp add: backlog_scheduler_def)
  have m: "monitor_tick starts backlog_scheduler = spawn_loop 3 0 starts backlog_scheduler" for starts
    by (simp add: monitor_tick_def l backlog_avg backlog_need Let_def)
  have a: "spawn_loop 3 0 [] backlog_scheduler = backlog_scheduler\<lparr>spawned := 3\<rparr>"
    by (simp add: backlog_scheduler_def goroutines_start_def Let_def)
  have b: "spawn_loop 3 0 [0, 1, 1] backlog_scheduler = backlog_scheduler\<lparr>numWorker := 1\<rparr>"
    by (simp add: backlog_scheduler_def goroutines_start_def Let_def)
  show ?thesis
    by (simp add: m a b l backlog_avg backlog_need all_started_def goroutines_start_def Let_def)
       (simp add: backlog_scheduler_def)
qed

end
